theory Spec2Isabelle
  imports Complex_Main "HOL-Library.Multiset" "HOL-Library.Sublist"
begin

section \<open>Trip records and data frames\<close>

text \<open>
  The dashboard of \<^verbatim>\<open>app.py\<close> works on one pandas data frame of taxi trips. A row of
  the frame is a record with the columns the program reads; a frame is the list of its
  rows, in row order.

  A timestamp column holds \<^verbatim>\<open>datetime64[ns]\<close> values: the number of nanoseconds since
  1970-01-01 00:00:00, without a time zone. A calendar date, as produced by
  \<^verbatim>\<open>.dt.date\<close> and by the date picker, is the number of days since 1970-01-01, which
  orders dates as Python's \<^verbatim>\<open>date\<close> comparison does. DuckDB holds a \<^verbatim>\<open>TIMESTAMP\<close> as
  the number of microseconds since the same instant. Amounts and distances are real
  numbers; the rounding of the float columns is not part of the model. A missing
  \<^verbatim>\<open>payment_type\<close> (NaN) is \<open>None\<close>.

  \<open>pickup_hour\<close> and \<open>payment_label\<close> are the two columns the program adds to the frame
  (lines 137 and 189) before it filters.
\<close>

type_synonym timestamp = int

type_synonym duck_timestamp = int

type_synonym date = int

record trip =
  tpep_pickup_datetime :: timestamp
  tpep_dropoff_datetime :: timestamp
  PU_Zone :: string
  fare_amount :: real
  total_amount :: real
  trip_distance :: real
  trip_duration_minutes :: real
  payment_type :: "int option"
  pickup_hour :: int
  payment_label :: string

type_synonym frame = "trip list"

subsection \<open>Fields of a timestamp\<close>

definition ns_per_hour :: int where
  "ns_per_hour = 3600 * 1000000000"

definition ns_per_day :: int where
  "ns_per_day = 24 * ns_per_hour"

text \<open>
  \<^verbatim>\<open>.dt.hour\<close> and \<^verbatim>\<open>.dt.date\<close> of pandas read the nanosecond value as it is: the hour
  of the day, and the calendar date with the time of day dropped.
\<close>

definition dt_hour :: "timestamp \<Rightarrow> int" where
  "dt_hour t = (t div ns_per_hour) mod 24"

definition dt_date :: "timestamp \<Rightarrow> date" where
  "dt_date t = t div ns_per_day"







text \<open>
  The queries run on the registered frame, whose timestamp columns hold nanoseconds. The
  engine brings each value to its own microsecond \<^verbatim>\<open>TIMESTAMP\<close> before \<^verbatim>\<open>HOUR\<close> and
  \<^verbatim>\<open>DAYNAME\<close> see it. That conversion is the engine's and no part of \<^verbatim>\<open>app.py\<close>, so the
  queries below take it as their parameter \<open>to_us\<close>. \<open>round_us\<close> is the conversion to the
  nearest microsecond, a half going up: it moves the last half microsecond of a day into
  the next day. A conversion is exact on a timestamp of whole microseconds.
\<close>

definition round_us :: "timestamp \<Rightarrow> duck_timestamp" where
  "round_us t = (t + 500) div 1000"

definition exact_on :: "(timestamp \<Rightarrow> duck_timestamp) \<Rightarrow> timestamp \<Rightarrow> bool" where
  "exact_on to_us t = (1000 * to_us t = t)"

subsection \<open>Derived columns\<close>

text \<open>Line 137: \<^verbatim>\<open>df['pickup_hour'] = df['tpep_pickup_datetime'].dt.hour\<close>.\<close>

definition add_pickup_hour :: "frame \<Rightarrow> frame" where
  "add_pickup_hour df = map (\<lambda>r. r\<lparr>pickup_hour := dt_hour (tpep_pickup_datetime r)\<rparr>) df"

text \<open>
  Lines 188 and 189: the dictionary \<^verbatim>\<open>payment_map\<close>, and
  \<^verbatim>\<open>df['payment_type'].map(payment_map).fillna('Unknown')\<close>. \<^verbatim>\<open>Series.map\<close> with a
  dictionary gives NaN for a value that is not a key and for a missing value, and
  \<^verbatim>\<open>fillna\<close> replaces every NaN.
\<close>

definition payment_map :: "int \<rightharpoonup> string" where
  "payment_map = [1 \<mapsto> ''Credit Card'', 2 \<mapsto> ''Cash'', 3 \<mapsto> ''No Charge'', 4 \<mapsto> ''Dispute'']"

definition series_map :: "('a \<rightharpoonup> 'b) \<Rightarrow> 'a option \<Rightarrow> 'b option" where
  "series_map m v = (case v of None \<Rightarrow> None | Some c \<Rightarrow> m c)"

definition fillna :: "'b \<Rightarrow> 'b option \<Rightarrow> 'b" where
  "fillna d v = (case v of None \<Rightarrow> d | Some x \<Rightarrow> x)"

definition label_of :: "int option \<Rightarrow> string" where
  "label_of pt = fillna ''Unknown'' (series_map payment_map pt)"

definition add_payment_label :: "frame \<Rightarrow> frame" where
  "add_payment_label df = map (\<lambda>r. r\<lparr>payment_label := label_of (payment_type r)\<rparr>) df"

section \<open>Filters\<close>

text \<open>
  Each filter indexes the frame with a boolean mask, which keeps the rows where the mask
  holds, in their order. The range of \<^verbatim>\<open>filterHour\<close> is the pair of the slider
  (\<^verbatim>\<open>range[0]\<close> its first component, \<^verbatim>\<open>range[1]\<close> its second);
  \<open>selection\<close> of \<^verbatim>\<open>filterPaymentType\<close> is the list of the chosen labels.
\<close>

definition filterDate :: "frame \<Rightarrow> date \<Rightarrow> date \<Rightarrow> frame" where
  "filterDate df start end' =
     filter (\<lambda>r. dt_date (tpep_pickup_datetime r) \<ge> start \<and>
                 dt_date (tpep_pickup_datetime r) \<le> end') df"

definition filterHour :: "frame \<Rightarrow> int \<times> int \<Rightarrow> frame" where
  "filterHour df hrange =
     filter (\<lambda>r. pickup_hour r \<ge> fst hrange \<and> pickup_hour r \<le> snd hrange) df"

definition isin :: "'a \<Rightarrow> 'a list \<Rightarrow> bool" where
  "isin v selection = (v \<in> set selection)"

definition filterPaymentType :: "frame \<Rightarrow> string list \<Rightarrow> frame" where
  "filterPaymentType df selection = filter (\<lambda>r. isin (payment_label r) selection) df"

text \<open>\<^verbatim>\<open>df['payment_label'].unique().tolist()\<close>: the labels of the frame, each once.\<close>

definition available_payments :: "frame \<Rightarrow> string list" where
  "available_payments df = rev (remdups (rev (map payment_label df)))"

section \<open>Queries\<close>

text \<open>
  Three charts take their rows from a DuckDB query over the registered frame. The
  clauses of these queries are modelled one by one. \<^verbatim>\<open>GROUP BY\<close> makes one group for
  each key that occurs, holding the rows with that key. The engine fixes neither the order
  of the groups nor the order of rows that are equal under \<^verbatim>\<open>ORDER BY\<close>; the model
  takes the groups in the order of \<open>remdups\<close> and sorts with the stable \<open>sort_key\<close>.
  \<^verbatim>\<open>AVG\<close> of no values is SQL's NULL, here \<open>None\<close>.
\<close>

definition GROUP_BY :: "('r \<Rightarrow> 'k) \<Rightarrow> 'r list \<Rightarrow> ('k \<times> 'r list) list" where
  "GROUP_BY key rows =
     map (\<lambda>k. (k, filter (\<lambda>r. key r = k) rows)) (remdups (map key rows))"

definition COUNT_star :: "'r list \<Rightarrow> nat" where
  "COUNT_star g = length g"

definition AVG :: "real list \<Rightarrow> real option" where
  "AVG xs = (if xs = [] then None else Some (sum_list xs / real (length xs)))"

definition ORDER_BY :: "('row \<Rightarrow> 'k::linorder) \<Rightarrow> 'row list \<Rightarrow> 'row list" where
  "ORDER_BY f rows = sort_key f rows"

definition ORDER_BY_DESC :: "('row \<Rightarrow> 'k::linorder) \<Rightarrow> 'row list \<Rightarrow> 'row list" where
  "ORDER_BY_DESC f rows = rev (sort_key f rows)"

definition LIMIT :: "nat \<Rightarrow> 'row list \<Rightarrow> 'row list" where
  "LIMIT n rows = take n rows"

section \<open>Charts\<close>

text \<open>
  Each \<^verbatim>\<open>construct...\<close> function hands the frame \<^verbatim>\<open>result\<close> of its query to a plotly
  chart and returns the figure. The figure draws the rows of \<^verbatim>\<open>result\<close> as they are,
  so the model of the function is that table.

  \<^verbatim>\<open>constructBar\<close>: rows \<open>(PU_Zone, Number_Of_Trips)\<close> of
  \<^verbatim>\<open>SELECT PU_Zone, COUNT(*) as Number_Of_Trips FROM df GROUP BY PU_Zone
  ORDER BY Number_Of_Trips DESC LIMIT 10\<close>.
\<close>

definition constructBar :: "frame \<Rightarrow> (string \<times> nat) list" where
  "constructBar df =
     LIMIT 10 (ORDER_BY_DESC snd
       (map (\<lambda>(zone, g). (zone, COUNT_star g)) (GROUP_BY PU_Zone df)))"









section \<open>Sample frames\<close>

text \<open>
  \<open>at_hour d h\<close> is the timestamp of hour \<open>h\<close> on day \<open>d\<close>; day 19723 is Monday 2024-01-01.
  \<open>sample_trip\<close> makes a row whose two derived columns are computed as the program does.
\<close>

definition at_hour :: "date \<Rightarrow> int \<Rightarrow> timestamp" where
  "at_hour d h = d * ns_per_day + h * ns_per_hour"

definition sample_trip :: "timestamp \<Rightarrow> timestamp \<Rightarrow> string \<Rightarrow> real \<Rightarrow> int option \<Rightarrow> trip" where
  "sample_trip pu dropoff zone fare pt =
     \<lparr>tpep_pickup_datetime = pu, tpep_dropoff_datetime = dropoff, PU_Zone = zone,
      fare_amount = fare, total_amount = fare, trip_distance = 1,
      trip_duration_minutes = 10, payment_type = pt,
      pickup_hour = dt_hour pu, payment_label = label_of pt\<rparr>"

definition sample_frame :: frame where
  "sample_frame =
     [sample_trip (at_hour 19723 5) (at_hour 19723 5) ''A'' 10 (Some 2),
      sample_trip (at_hour 19723 4) (at_hour 19723 5) ''A'' 20 (Some 1),
      sample_trip (at_hour 19724 6) (at_hour 19724 7) ''B'' 30 (Some 2)]"

definition raw_frame :: frame where
  "raw_frame =
     [(sample_trip (at_hour 19723 5) (at_hour 19723 5) ''A'' 10 (Some 7))\<lparr>payment_label := []\<rparr>,
      (sample_trip (at_hour 19723 4) (at_hour 19723 5) ''A'' 20 None)\<lparr>payment_label := []\<rparr>,
      (sample_trip (at_hour 19724 6) (at_hour 19724 7) ''B'' 30 (Some 2))\<lparr>payment_label := []\<rparr>]"



text \<open>Twelve trips from eleven pickup zones; zone \<open>c\<close> has two trips, the others one.\<close>

definition zones_frame :: frame where
  "zones_frame =
     map (\<lambda>zone. sample_trip (at_hour 19723 8) (at_hour 19723 9) zone 12 (Some 1))
       [''a'', ''b'', ''c'', ''d'', ''e'', ''f'', ''g'', ''h'', ''i'', ''j'', ''k'', ''c'']"

section \<open>Facts about the query clauses\<close>

lemmas query_defs = GROUP_BY_def COUNT_star_def AVG_def ORDER_BY_def ORDER_BY_DESC_def LIMIT_def

lemma isin_set: "isin v selection \<longleftrightarrow> v \<in> set selection"
  by (simp add: isin_def)

lemma set_available_payments: "set (available_payments df) = set (map payment_label df)"
  by (simp add: available_payments_def)

lemma label_of_Some: "label_of (Some c) =
   (if c = 1 then ''Credit Card'' else if c = 2 then ''Cash'' else if c = 3 then ''No Charge''
    else if c = 4 then ''Dispute'' else ''Unknown'')"
  by (simp add: label_of_def fillna_def series_map_def payment_map_def)

lemma label_of_None: "label_of None = ''Unknown''"
  by (simp add: label_of_def fillna_def series_map_def)

lemma fst_GROUP_BY: "map fst (GROUP_BY key rows) = remdups (map key rows)"
  by (simp add: GROUP_BY_def comp_def)






lemma length_GROUP_BY: "length (GROUP_BY key rows) = card (key ` set rows)"
proof -
  have "length (GROUP_BY key rows) = length (remdups (map key rows))"
    by (simp add: GROUP_BY_def)
  also have "\<dots> = card (set (map key rows))"
    by (simp only: length_remdups_card_conv)
  finally show ?thesis by simp
qed






lemma round_us_exact: "t mod 1000 = 0 \<Longrightarrow> exact_on round_us t"
proof -
  assume "t mod 1000 = 0"
  then obtain k where t: "t = 1000 * k" by (auto simp add: mod_eq_0_iff_dvd)
  have "(1000 * k + 500) div 1000 = k" by simp
  then show ?thesis by (simp add: exact_on_def round_us_def t)
qed

lemma counted_groups:
  "map (\<lambda>(k, g). (k, COUNT_star g)) (GROUP_BY key rows)
     = map (\<lambda>k. (k, length (filter (\<lambda>r. key r = k) rows))) (remdups (map key rows))"
  by (simp add: GROUP_BY_def COUNT_star_def)

lemma sorted_desc_ORDER_BY_DESC:
  "sorted_wrt (\<ge>) (map f (ORDER_BY_DESC f rows))"
proof -
  have "sorted (map f (sort_key f rows))" by simp
  then have "sorted_wrt (\<ge>) (rev (map f (sort_key f rows)))"
    by (simp add: sorted_wrt_rev)
  then show ?thesis by (simp add: ORDER_BY_DESC_def rev_map)
qed

lemma mset_ORDER_BY_DESC: "mset (ORDER_BY_DESC f rows) = mset rows"
  by (simp add: ORDER_BY_DESC_def)

lemma set_ORDER_BY_DESC: "set (ORDER_BY_DESC f rows) = set rows"
  by (simp add: ORDER_BY_DESC_def)

lemma length_ORDER_BY_DESC: "length (ORDER_BY_DESC f rows) = length rows"
  by (simp add: ORDER_BY_DESC_def)

lemma distinct_map_ORDER_BY_DESC:
  "distinct (map g (ORDER_BY_DESC f rows)) = distinct (map g rows)"
proof -
  have "mset (map g (ORDER_BY_DESC f rows)) = mset (map g rows)"
    by (simp add: mset_ORDER_BY_DESC)
  then show ?thesis by (rule mset_eq_imp_distinct_iff)
qed







lemma bar_groups:
  "map (\<lambda>(zone, g). (zone, COUNT_star g)) (GROUP_BY PU_Zone df)
     = map (\<lambda>zone. (zone, length (filter (\<lambda>r. PU_Zone r = zone) df))) (remdups (map PU_Zone df))"
  by (rule counted_groups)

lemma bar_sorted_rows:
  fixes df :: frame
  defines "S \<equiv> ORDER_BY_DESC snd (map (\<lambda>(zone, g). (zone, COUNT_star g)) (GROUP_BY PU_Zone df))"
  shows "set S = (\<lambda>zone. (zone, length (filter (\<lambda>r. PU_Zone r = zone) df))) ` PU_Zone ` set df"
    and "distinct (map fst S)"
    and "length S = card (PU_Zone ` set df)"
    and "sorted_wrt (\<ge>) (map snd S)"
proof -
  show "set S = (\<lambda>zone. (zone, length (filter (\<lambda>r. PU_Zone r = zone) df))) ` PU_Zone ` set df"
    unfolding S_def by (simp add: set_ORDER_BY_DESC bar_groups)
  show "distinct (map fst S)"
    unfolding S_def by (simp add: distinct_map_ORDER_BY_DESC bar_groups comp_def)
  show "length S = card (PU_Zone ` set df)"
    unfolding S_def by (simp add: length_ORDER_BY_DESC length_GROUP_BY)
  show "sorted_wrt (\<ge>) (map snd S)"
    unfolding S_def by (rule sorted_desc_ORDER_BY_DESC)
qed

lemma take_sorted_desc_dominates:
  assumes "sorted_wrt (\<ge>) (map f xs)" and "x \<in> set (take n xs)" and "y \<in> set xs" and "y \<notin> set (take n xs)"
  shows "f y \<le> f x"
proof -
  have "xs = take n xs @ drop n xs" by simp
  then have "sorted_wrt (\<ge>) (map f (take n xs) @ map f (drop n xs))"
    using assms(1) by (metis map_append)
  then have "\<forall>a\<in>set (map f (take n xs)). \<forall>b\<in>set (map f (drop n xs)). b \<le> a"
    by (simp add: sorted_wrt_append)
  moreover have "y \<in> set (drop n xs)"
    using assms(3,4) by (metis Un_iff append_take_drop_id set_append)
  ultimately show ?thesis using assms(2) by simp
qed

subsection \<open>The percentile\<close>






section \<open>Derived payment label\<close>

text \<open>
  Claim C7. After line 189 the frame has as many rows as before, and the payment label of
  each row is the image of its payment type under \<^verbatim>\<open>payment_map\<close>: 1 gives
  "Credit Card", 2 "Cash", 3 "No Charge", 4 "Dispute"; every other code, and a missing
  code, gives "Unknown". The derivation is a total function: no input makes it fail.
\<close>

theorem payment_label_lookup:
  "length (add_payment_label df) = length df \<and>
   (\<forall>i < length df. payment_label (add_payment_label df ! i) =
      (case payment_type (df ! i) of
         None \<Rightarrow> ''Unknown''
       | Some c \<Rightarrow> (if c = 1 then ''Credit Card'' else if c = 2 then ''Cash''
                    else if c = 3 then ''No Charge'' else if c = 4 then ''Dispute''
                    else ''Unknown'')))"
  by (simp add: add_payment_label_def label_of_Some label_of_None split: option.split)

theorem payment_label_lookup_witness:
  "map payment_type raw_frame = [Some 7, None, Some 2]
   \<and> map payment_label (add_payment_label raw_frame) = [''Unknown'', ''Unknown'', ''Cash'']
   \<and> length (add_payment_label raw_frame) = length raw_frame
   \<and> payment_label (add_payment_label raw_frame ! 0) = ''Unknown''"
proof -
  have types: "map payment_type raw_frame = [Some 7, None, Some 2]"
    by (simp add: raw_frame_def sample_trip_def)
  have labels: "map payment_label (add_payment_label raw_frame) = [''Unknown'', ''Unknown'', ''Cash'']"
    by (simp add: add_payment_label_def raw_frame_def sample_trip_def label_of_Some label_of_None)
  have len: "0 < length raw_frame"
    by (simp add: raw_frame_def)
  have first: "payment_type (raw_frame ! 0) = Some 7"
    by (simp add: raw_frame_def sample_trip_def)
  from payment_label_lookup [of raw_frame] len
  have "length (add_payment_label raw_frame) = length raw_frame"
    and "payment_label (add_payment_label raw_frame ! 0) =
      (case payment_type (raw_frame ! 0) of
         None \<Rightarrow> ''Unknown''
       | Some c \<Rightarrow> (if c = 1 then ''Credit Card'' else if c = 2 then ''Cash''
                    else if c = 3 then ''No Charge'' else if c = 4 then ''Dispute''
                    else ''Unknown''))"
    by blast+
  then have "length (add_payment_label raw_frame) = length raw_frame"
    and "payment_label (add_payment_label raw_frame ! 0) = ''Unknown''"
    by (simp_all add: first)
  with types labels show ?thesis by blast
qed

section \<open>Properties of the filters\<close>

text \<open>
  Claim C4. Each of the three filters returns a subsequence of the frame it is given, so
  every row of the result is a row of the input, and filtering the result again with the
  same constraint changes nothing. This holds for all bounds, also for a range whose lower
  bound lies above its upper bound and for an empty selection.
\<close>

theorem filters_subset_idempotent:
  "subseq (filterDate df start end') df \<and> set (filterDate df start end') \<subseteq> set df
   \<and> filterDate (filterDate df start end') start end' = filterDate df start end'
   \<and> subseq (filterHour df hrange) df \<and> set (filterHour df hrange) \<subseteq> set df
   \<and> filterHour (filterHour df hrange) hrange = filterHour df hrange
   \<and> subseq (filterPaymentType df selection) df \<and> set (filterPaymentType df selection) \<subseteq> set df
   \<and> filterPaymentType (filterPaymentType df selection) selection = filterPaymentType df selection"
  by (simp add: filterDate_def filterHour_def filterPaymentType_def)

theorem filters_subset_idempotent_witness:
  "map PU_Zone (filterHour sample_frame (5, 6)) = [''A'', ''B'']
   \<and> filterHour (filterHour sample_frame (5, 6)) (5, 6) = filterHour sample_frame (5, 6)
   \<and> map fare_amount (filterDate sample_frame 19724 19724) = [30]
   \<and> filterDate (filterDate sample_frame 19724 19724) 19724 19724 = filterDate sample_frame 19724 19724
   \<and> map fare_amount (filterPaymentType sample_frame [''Cash'']) = [10, 30]
   \<and> filterPaymentType (filterPaymentType sample_frame [''Cash'']) [''Cash'']
       = filterPaymentType sample_frame [''Cash'']
   \<and> set (filterPaymentType sample_frame [''Cash'']) \<subseteq> set sample_frame"
proof -
  have h: "map PU_Zone (filterHour sample_frame (5, 6)) = [''A'', ''B'']"
    by (simp add: filterHour_def sample_frame_def sample_trip_def dt_hour_def at_hour_def
        ns_per_day_def ns_per_hour_def)
  have d: "map fare_amount (filterDate sample_frame 19724 19724) = [30]"
    by (simp add: filterDate_def sample_frame_def sample_trip_def dt_date_def at_hour_def
        ns_per_day_def ns_per_hour_def)
  have p: "map fare_amount (filterPaymentType sample_frame [''Cash'']) = [10, 30]"
    by (simp add: filterPaymentType_def isin_def sample_frame_def sample_trip_def label_of_Some)
  from h d p filters_subset_idempotent [of sample_frame 19724 19724 "(5, 6)" "[''Cash'']"]
  show ?thesis by blast
qed

text \<open>
  Claim C5. For a fixed date range, hour range and selection of labels, the three filters
  give the same frame in each of the six orders in which they can be applied. The order
  of the program (date, hour, payment) is the right-hand side of each equation.
\<close>

theorem filters_any_order:
  "filterDate (filterPaymentType (filterHour df h) s) a b = filterPaymentType (filterHour (filterDate df a b) h) s
 \<and> filterHour (filterPaymentType (filterDate df a b) s) h = filterPaymentType (filterHour (filterDate df a b) h) s
 \<and> filterHour (filterDate (filterPaymentType df s) a b) h = filterPaymentType (filterHour (filterDate df a b) h) s
 \<and> filterDate (filterHour (filterPaymentType df s) h) a b = filterPaymentType (filterHour (filterDate df a b) h) s
 \<and> filterPaymentType (filterDate (filterHour df h) a b) s = filterPaymentType (filterHour (filterDate df a b) h) s"
  by (simp add: filterDate_def filterHour_def filterPaymentType_def conj_ac)

theorem filters_any_order_witness:
  "map fare_amount (filterPaymentType (filterHour (filterDate sample_frame 19723 19723) (5, 6)) [''Cash'']) = [10]
   \<and> map fare_amount (filterDate (filterPaymentType (filterHour sample_frame (5, 6)) [''Cash'']) 19723 19723) = [10]
   \<and> filterDate (filterHour (filterPaymentType sample_frame [''Cash'']) (5, 6)) 19723 19723
      = filterPaymentType (filterHour (filterDate sample_frame 19723 19723) (5, 6)) [''Cash'']"
proof -
  have v: "map fare_amount (filterPaymentType (filterHour (filterDate sample_frame 19723 19723) (5, 6)) [''Cash'']) = [10]"
    by (simp add: filterPaymentType_def filterHour_def filterDate_def isin_def sample_frame_def
        sample_trip_def label_of_Some dt_hour_def dt_date_def at_hour_def ns_per_day_def ns_per_hour_def)
  from filters_any_order [of sample_frame "(5, 6)" "[''Cash'']" 19723 19723]
  have e1: "filterDate (filterPaymentType (filterHour sample_frame (5, 6)) [''Cash'']) 19723 19723
      = filterPaymentType (filterHour (filterDate sample_frame 19723 19723) (5, 6)) [''Cash'']"
    and e2: "filterDate (filterHour (filterPaymentType sample_frame [''Cash'']) (5, 6)) 19723 19723
      = filterPaymentType (filterHour (filterDate sample_frame 19723 19723) (5, 6)) [''Cash'']"
    by blast+
  from v e1 have "map fare_amount (filterDate (filterPaymentType (filterHour sample_frame (5, 6)) [''Cash'']) 19723 19723) = [10]"
    by (simp only:)
  with v e2 show ?thesis by blast
qed

text \<open>
  Claim C8. When the start date lies strictly after the end date, \<^verbatim>\<open>filterDate\<close>
  returns the empty frame, whatever the rows of its input are.
\<close>

theorem filterDate_start_after_end:
  "end' < start \<Longrightarrow> filterDate df start end' = []"
  by (simp add: filterDate_def filter_empty_conv)

theorem filterDate_start_after_end_witness:
  "(19723 :: date) < 19724 \<and> sample_frame \<noteq> [] \<and> filterDate sample_frame 19724 19723 = []"
proof -
  have lt: "(19723 :: date) < 19724" by simp
  have ne: "sample_frame \<noteq> []" by (simp add: sample_frame_def)
  from lt have "filterDate sample_frame 19724 19723 = []"
    by (rule filterDate_start_after_end)
  with lt ne show ?thesis by blast
qed

text \<open>
  Claim C10. When the selection holds every payment label that occurs in the frame,
  \<^verbatim>\<open>filterPaymentType\<close> returns the frame unchanged. The default of the dashboard's
  multiselect, the list \<^verbatim>\<open>available_payments\<close> of the labels of the frame, is such a
  selection.
\<close>

theorem filterPaymentType_all_labels:
  "(set (map payment_label df) \<subseteq> set selection \<longrightarrow> filterPaymentType df selection = df)
   \<and> filterPaymentType df (available_payments df) = df"
  by (auto simp add: filterPaymentType_def isin_set filter_id_conv set_available_payments)

theorem filterPaymentType_all_labels_witness:
  "set (map payment_label sample_frame) \<subseteq> set [''Credit Card'', ''Cash'', ''Dispute'']
   \<and> filterPaymentType sample_frame [''Credit Card'', ''Cash'', ''Dispute''] = sample_frame
   \<and> available_payments sample_frame = [''Cash'', ''Credit Card'']
   \<and> filterPaymentType sample_frame (available_payments sample_frame) = sample_frame"
proof -
  have labels: "map payment_label sample_frame = [''Cash'', ''Credit Card'', ''Cash'']"
    by (simp add: sample_frame_def sample_trip_def label_of_Some)
  have sub: "set (map payment_label sample_frame) \<subseteq> set [''Credit Card'', ''Cash'', ''Dispute'']"
    by (simp add: labels)
  have av: "available_payments sample_frame = [''Cash'', ''Credit Card'']"
    by (simp add: available_payments_def labels)
  from filterPaymentType_all_labels [of sample_frame "[''Credit Card'', ''Cash'', ''Dispute'']"] sub
  have "filterPaymentType sample_frame [''Credit Card'', ''Cash'', ''Dispute''] = sample_frame"
    and "filterPaymentType sample_frame (available_payments sample_frame) = sample_frame"
    by blast+
  with sub av show ?thesis by blast
qed

section \<open>Properties of the charts\<close>

text \<open>
  Claim C1. The rows of \<^verbatim>\<open>constructBar\<close> are pairs of a pickup zone and the number of
  trips of the frame from that zone. There are at most ten rows, as many as there are
  distinct zones when these are fewer than ten, and no zone has two rows. The counts do
  not increase from one row to the next, and a zone that is left out has no more trips
  than any zone that is shown. When the frame has at most ten zones every zone is shown,
  and the empty frame gives no rows.
\<close>

theorem constructBar_top10:
  "length (constructBar df) \<le> 10
   \<and> length (constructBar df) = min 10 (card (PU_Zone ` set df))
   \<and> distinct (map fst (constructBar df))
   \<and> (\<forall>(zone, n) \<in> set (constructBar df).
         zone \<in> PU_Zone ` set df \<and> n = length (filter (\<lambda>r. PU_Zone r = zone) df))
   \<and> sorted_wrt (\<ge>) (map snd (constructBar df))
   \<and> (\<forall>zone \<in> PU_Zone ` set df. zone \<notin> fst ` set (constructBar df) \<longrightarrow>
         (\<forall>(z, n) \<in> set (constructBar df). length (filter (\<lambda>r. PU_Zone r = zone) df) \<le> n))
   \<and> (card (PU_Zone ` set df) \<le> 10 \<longrightarrow> fst ` set (constructBar df) = PU_Zone ` set df)
   \<and> constructBar [] = []"
proof -
  define S where "S = ORDER_BY_DESC snd (map (\<lambda>(zone, g). (zone, COUNT_star g)) (GROUP_BY PU_Zone df))"
  let ?cnt = "\<lambda>zone. length (filter (\<lambda>r. PU_Zone r = zone) df)"
  have bar: "constructBar df = take 10 S"
    by (simp add: constructBar_def LIMIT_def S_def)
  have setS: "set S = (\<lambda>zone. (zone, ?cnt zone)) ` PU_Zone ` set df"
    and distS: "distinct (map fst S)"
    and lenS: "length S = card (PU_Zone ` set df)"
    and sortS: "sorted_wrt (\<ge>) (map snd S)"
    unfolding S_def by (rule bar_sorted_rows)+
  have c1: "length (constructBar df) \<le> 10" by (simp add: bar)
  have c2: "length (constructBar df) = min 10 (card (PU_Zone ` set df))"
    by (simp add: bar lenS min.commute)
  have c3: "distinct (map fst (constructBar df))"
    using distS by (simp add: bar take_map[symmetric])
  have sub: "set (constructBar df) \<subseteq> set S"
    by (simp add: bar set_take_subset)
  have c4: "\<forall>(zone, n) \<in> set (constructBar df). zone \<in> PU_Zone ` set df \<and> n = ?cnt zone"
    using sub setS by auto
  have c5: "sorted_wrt (\<ge>) (map snd (constructBar df))"
    using sortS by (simp add: bar take_map[symmetric] sorted_wrt_take)
  have c6: "\<forall>zone \<in> PU_Zone ` set df. zone \<notin> fst ` set (constructBar df) \<longrightarrow>
         (\<forall>(z, n) \<in> set (constructBar df). ?cnt zone \<le> n)"
  proof (intro ballI impI)
    fix zone p
    assume z: "zone \<in> PU_Zone ` set df" and out: "zone \<notin> fst ` set (constructBar df)"
      and p: "p \<in> set (constructBar df)"
    have inS: "(zone, ?cnt zone) \<in> set S" using z setS by auto
    have notin: "(zone, ?cnt zone) \<notin> set (take 10 S)"
      using out bar by force
    have "snd (zone, ?cnt zone) \<le> snd p"
      using sortS p[unfolded bar] inS notin by (rule take_sorted_desc_dominates)
    then show "case p of (z, n) \<Rightarrow> ?cnt zone \<le> n" by (simp add: case_prod_beta)
  qed
  have c7: "card (PU_Zone ` set df) \<le> 10 \<longrightarrow> fst ` set (constructBar df) = PU_Zone ` set df"
  proof
    assume "card (PU_Zone ` set df) \<le> 10"
    then have "constructBar df = S" by (simp add: bar lenS)
    then show "fst ` set (constructBar df) = PU_Zone ` set df"
      by (simp add: setS image_image)
  qed
  have c8: "constructBar [] = []"
    by (simp add: constructBar_def LIMIT_def ORDER_BY_DESC_def GROUP_BY_def)
  from c1 c2 c3 c4 c5 c6 c7 c8 show ?thesis by blast
qed

theorem constructBar_top10_witness:
  "constructBar sample_frame = [(''A'', 2), (''B'', 1)]
   \<and> card (PU_Zone ` set sample_frame) \<le> 10
   \<and> fst ` set (constructBar sample_frame) = PU_Zone ` set sample_frame
   \<and> constructBar zones_frame =
       [(''c'', 2), (''k'', 1), (''j'', 1), (''i'', 1), (''h'', 1), (''g'', 1), (''f'', 1),
        (''e'', 1), (''d'', 1), (''b'', 1)]
   \<and> ''a'' \<in> PU_Zone ` set zones_frame
   \<and> ''a'' \<notin> fst ` set (constructBar zones_frame)
   \<and> list_all (\<lambda>(z, n). length (filter (\<lambda>r. PU_Zone r = ''a'') zones_frame) \<le> n)
        (constructBar zones_frame)"
proof -
  have small: "constructBar sample_frame = [(''A'', 2), (''B'', 1)]"
    by (simp add: constructBar_def query_defs sample_frame_def sample_trip_def)
  have big: "constructBar zones_frame =
       [(''c'', 2), (''k'', 1), (''j'', 1), (''i'', 1), (''h'', 1), (''g'', 1), (''f'', 1),
        (''e'', 1), (''d'', 1), (''b'', 1)]"
    by (simp add: constructBar_def query_defs zones_frame_def sample_trip_def)
  have few: "card (PU_Zone ` set sample_frame) \<le> 10"
    by (simp add: sample_frame_def sample_trip_def)
  have a_in: "''a'' \<in> PU_Zone ` set zones_frame"
    by (simp add: zones_frame_def sample_trip_def)
  have a_out: "''a'' \<notin> fst ` set (constructBar zones_frame)"
    by (simp add: big)
  from constructBar_top10 [of sample_frame] few
  have shown: "fst ` set (constructBar sample_frame) = PU_Zone ` set sample_frame"
    by blast
  from constructBar_top10 [of zones_frame]
  have "\<forall>zone \<in> PU_Zone ` set zones_frame. zone \<notin> fst ` set (constructBar zones_frame) \<longrightarrow>
         (\<forall>(z, n) \<in> set (constructBar zones_frame).
            length (filter (\<lambda>r. PU_Zone r = zone) zones_frame) \<le> n)"
    by blast
  with a_in a_out
  have "\<forall>(z, n) \<in> set (constructBar zones_frame).
          length (filter (\<lambda>r. PU_Zone r = ''a'') zones_frame) \<le> n"
    by blast
  then have dom: "list_all (\<lambda>(z, n). length (filter (\<lambda>r. PU_Zone r = ''a'') zones_frame) \<le> n)
        (constructBar zones_frame)"
    by (simp only: list_all_iff)
  from small few shown big a_in a_out dom show ?thesis by blast
qed








end
